theory Spec2Isabelle
  imports Complex_Main
begin

section \<open>Values, requests and the outside world\<close>

text \<open>
  The server in \<^verbatim>\<open>main.py\<close> binds a handful of tools to endpoints of the Bolna
  REST API. Every tool builds a URL, calls \<^verbatim>\<open>make_bolna_request\<close> once and returns
  what that call returns. The effects of the program are the HTTP calls it issues through
  \<^verbatim>\<open>httpx\<close> and the lines it prints; both are recorded in an explicit world state
  that every function takes and returns.
\<close>

text \<open>
  Python values that travel as JSON. \<open>JNull\<close> is Python's \<^verbatim>\<open>None\<close>: it is what
  \<^verbatim>\<open>response.json()\<close> gives for the JSON text \<^verbatim>\<open>null\<close>, and it is the value
  \<^verbatim>\<open>make_bolna_request\<close> returns after a failure. A dict is an association list in
  insertion order. A float is the rational number its decimal literal denotes, the number
  that is written on the wire.
\<close>

datatype json =
    JNull
  | JBool bool
  | JInt int
  | JFloat rat
  | JString string
  | JArray "json list"
  | JObject "(string \<times> json) list"

datatype http_verb = GET | POST | PUT | DELETE

text \<open>
  One call of an \<^verbatim>\<open>httpx.AsyncClient\<close> method: the method called, the URL, the
  \<^verbatim>\<open>json=\<close> keyword (\<open>None\<close> when the call passes no such keyword), the
  \<^verbatim>\<open>headers=\<close> keyword and the \<^verbatim>\<open>timeout=\<close> keyword in seconds.
\<close>

record request =
  req_verb :: http_verb
  req_url :: string
  req_json :: "json option"
  req_headers :: "(string \<times> string) list"
  req_timeout :: rat

text \<open>
  Exceptions, by class, each with the text \<^verbatim>\<open>str(e)\<close> gives: those of httpx and of
  the JSON decoder, \<^verbatim>\<open>ValueError\<close> and \<^verbatim>\<open>OSError\<close>, and two classes that derive
  from \<^verbatim>\<open>BaseException\<close> only, the cancellation of the running task and the
  keyboard interrupt. \<open>is_Exception\<close> is \<^verbatim>\<open>isinstance(e, Exception)\<close>.
\<close>

datatype exc_class =
    HTTPStatusError
  | TimeoutException
  | ConnectError
  | TransportError
  | InvalidURL
  | JSONDecodeError
  | ValueError
  | OSError
  | CancelledError
  | KeyboardInterrupt

datatype py_exception = Exc exc_class string

fun is_Exception :: "exc_class \<Rightarrow> bool" where
  "is_Exception CancelledError = False"
| "is_Exception KeyboardInterrupt = False"
| "is_Exception c = True"

text \<open>
  A response: its status code, and what \<^verbatim>\<open>response.json()\<close> does with its body
  (it raises on a body that is not JSON, an empty one included).
\<close>

record response =
  status_code :: nat
  json_result :: "py_exception + json"

text \<open>
  What the program meets outside itself:
  \<^item> \<open>API_KEY\<close>: the environment variable \<^verbatim>\<open>BOLNA_API_KEY\<close> (\<^verbatim>\<open>os.environ.get\<close>
    gives \<^verbatim>\<open>None\<close> when it is not set);
  \<^item> \<open>client_enter\<close>: what \<^verbatim>\<open>httpx.AsyncClient()\<close> and entering the
    \<^verbatim>\<open>async with\<close> block do, \<open>None\<close> when the client is ready and \<open>Some ex\<close> when
    the exception \<open>ex\<close> is raised;
  \<^item> \<open>send\<close>: the answer of the network to a call, a response or an exception raised
    by the client method;
  \<^item> \<open>status_error_text\<close>: the text of the \<^verbatim>\<open>HTTPStatusError\<close> that httpx builds for
    a status code and a URL;
  \<^item> \<open>print_raises\<close>: what \<^verbatim>\<open>print\<close> does with a line, \<open>None\<close> when the line is
    written and \<open>Some ex\<close> when \<open>ex\<close> is raised (a closed or broken output stream);
  \<^item> \<open>client_exit\<close>: what leaving the \<^verbatim>\<open>async with\<close> block (closing the client)
    does, \<open>None\<close> or the exception raised.
\<close>

record env =
  API_KEY :: "string option"
  client_enter :: "py_exception option"
  send :: "request \<Rightarrow> py_exception + response"
  status_error_text :: "nat \<Rightarrow> string \<Rightarrow> string"
  print_raises :: "string \<Rightarrow> py_exception option"
  client_exit :: "py_exception option"

record world =
  sent :: "request list"
  stdout :: "string list"

definition BOLNA_API_URL :: string where
  "BOLNA_API_URL = ''https://api.bolna.ai/v2''"

text \<open>An f-string field \<^verbatim>\<open>{API_KEY}\<close>: \<^verbatim>\<open>None\<close> is formatted as \<^verbatim>\<open>None\<close>.\<close>

definition format_str_or_none :: "string option \<Rightarrow> string" where
  "format_str_or_none v = (case v of None \<Rightarrow> ''None'' | Some s \<Rightarrow> s)"

definition HEADERS :: "env \<Rightarrow> (string \<times> string) list" where
  "HEADERS e =
     [(''Authorization'', ''Bearer '' @ format_str_or_none (API_KEY e)),
      (''Content-Type'', ''application/json'')]"

section \<open>The upstream client\<close>

definition client_post :: "env \<Rightarrow> string \<Rightarrow> json \<Rightarrow> request" where
  "client_post e u d =
     \<lparr>req_verb = POST, req_url = u, req_json = Some d,
      req_headers = HEADERS e, req_timeout = 30\<rparr>"

definition client_put :: "env \<Rightarrow> string \<Rightarrow> json \<Rightarrow> request" where
  "client_put e u d =
     \<lparr>req_verb = PUT, req_url = u, req_json = Some d,
      req_headers = HEADERS e, req_timeout = 30\<rparr>"

definition client_delete :: "env \<Rightarrow> string \<Rightarrow> request" where
  "client_delete e u =
     \<lparr>req_verb = DELETE, req_url = u, req_json = None,
      req_headers = HEADERS e, req_timeout = 30\<rparr>"

definition client_get :: "env \<Rightarrow> string \<Rightarrow> request" where
  "client_get e u =
     \<lparr>req_verb = GET, req_url = u, req_json = None,
      req_headers = HEADERS e, req_timeout = 30\<rparr>"

text \<open>The \<^verbatim>\<open>if\<close>/\<^verbatim>\<open>elif\<close> chain on the method string, in the source's order.\<close>

definition build_call :: "env \<Rightarrow> string \<Rightarrow> string \<Rightarrow> json \<Rightarrow> request" where
  "build_call e u method d =
     (if method = ''POST'' then client_post e u d
      else if method = ''PUT'' then client_put e u d
      else if method = ''DELETE'' then client_delete e u
      else client_get e u)"

text \<open>
  \<^verbatim>\<open>response.raise_for_status()\<close>: httpx raises \<^verbatim>\<open>HTTPStatusError\<close> unless the
  status code is a success code, 200 to 299.
\<close>

definition raise_for_status :: "env \<Rightarrow> request \<Rightarrow> response \<Rightarrow> py_exception + unit" where
  "raise_for_status e r resp =
     (if 200 \<le> status_code resp \<and> status_code resp \<le> 299 then Inr ()
      else Inl (Exc HTTPStatusError (status_error_text e (status_code resp) (req_url r))))"

text \<open>
  The body of the \<^verbatim>\<open>try\<close> block: the client call, \<^verbatim>\<open>raise_for_status\<close>, then
  \<^verbatim>\<open>return response.json()\<close>. The first exception ends the block.
\<close>

definition try_block :: "env \<Rightarrow> request \<Rightarrow> py_exception + json" where
  "try_block e r =
     (case send e r of
        Inl ex \<Rightarrow> Inl ex
      | Inr resp \<Rightarrow>
          (case raise_for_status e r resp of
             Inl ex \<Rightarrow> Inl ex
           | Inr _ \<Rightarrow> json_result resp))"

text \<open>
  The two \<^verbatim>\<open>except\<close> clauses, in order: \<^verbatim>\<open>except httpx.HTTPStatusError\<close>, then
  \<^verbatim>\<open>except Exception\<close>. The result is the line the matching clause prints, or
  \<open>None\<close> when no clause matches and the exception leaves the \<^verbatim>\<open>try\<close> statement.
\<close>

fun except_clauses :: "py_exception \<Rightarrow> string option" where
  "except_clauses (Exc c m) =
     (if c = HTTPStatusError then Some (''HTTP error occurred: '' @ m)
      else if is_Exception c then Some (''An error occurred: '' @ m)
      else None)"

definition print_line :: "string \<Rightarrow> world \<Rightarrow> world" where
  "print_line l w = w\<lparr>stdout := stdout w @ [l]\<rparr>"

text \<open>
  What follows an exception of the \<^verbatim>\<open>try\<close> block: an exception that no clause
  catches goes on; a caught one is printed, and the function goes on to
  \<^verbatim>\<open>return None\<close>, unless \<^verbatim>\<open>print\<close> itself raises.
\<close>

definition handle_exception ::
  "env \<Rightarrow> py_exception \<Rightarrow> world \<Rightarrow> (py_exception + json) \<times> world" where
  "handle_exception e ex w =
     (case except_clauses ex of
        None \<Rightarrow> (Inl ex, w)
      | Some l \<Rightarrow>
          (case print_raises e l of
             Some ex' \<Rightarrow> (Inl ex', w)
           | None \<Rightarrow> (Inr JNull, print_line l w)))"

text \<open>
  The body of the \<^verbatim>\<open>async with\<close> block (lines 40 to 57): the call is issued, and
  the \<^verbatim>\<open>try\<close> statement either returns the decoded body or handles the exception.
\<close>

definition with_client ::
  "env \<Rightarrow> string \<Rightarrow> string \<Rightarrow> json \<Rightarrow> world \<Rightarrow> (py_exception + json) \<times> world" where
  "with_client e u method d w =
     (let r = build_call e u method d;
          w1 = w\<lparr>sent := sent w @ [r]\<rparr>
      in case try_block e r of
           Inr v \<Rightarrow> (Inr v, w1)
         | Inl ex \<Rightarrow> handle_exception e ex w1)"

text \<open>
  \<^verbatim>\<open>make_bolna_request(url, method, data)\<close>. The result is what the call does (\<open>Inl\<close>:
  it raises, \<open>Inr\<close>: it returns a value) and the world after the call. The client is
  created and entered outside the \<^verbatim>\<open>try\<close> statement (line 39): an exception there
  leaves the function before any call is issued. The client is closed on the way out of
  the block, whether the block returned or raised, and an exception of the closing
  replaces the outcome of the block.
\<close>

definition make_bolna_request ::
  "env \<Rightarrow> string \<Rightarrow> string \<Rightarrow> json \<Rightarrow> world \<Rightarrow> (py_exception + json) \<times> world" where
  "make_bolna_request e u method d w =
     (case client_enter e of
        Some ex \<Rightarrow> (Inl ex, w)
      | None \<Rightarrow>
          (case client_exit e of
             None \<Rightarrow> with_client e u method d w
           | Some ex \<Rightarrow> (Inl ex, snd (with_client e u method d w))))"

section \<open>The tools\<close>

text \<open>
  \<^verbatim>\<open>get_required_agent_config\<close>: the dict literal of the source, key by key, with the
  three arguments in their fields.
\<close>

definition get_required_agent_config :: "string \<Rightarrow> string \<Rightarrow> string \<Rightarrow> json" where
  \<open>get_required_agent_config agent_name agent_type agent_welcome_message =
     JObject [
       (''agent_config'', JObject [
          (''agent_name'', JString agent_name),
          (''agent_type'', JString agent_type),
          (''agent_welcome_message'', JString agent_welcome_message),
          (''tasks'', JArray [
             JObject [
               (''task_type'', JString ''conversation''),
               (''tools_config'', JObject [
                  (''llm_agent'', JObject [
                     (''agent_type'', JString ''simple_llm_agent''),
                     (''agent_flow_type'', JString ''streaming''),
                     (''routes'', JObject [
                        (''embedding_model'', JString ''snowflake/snowflake-arctic-embed-m''),
                        (''routes'', JArray [
                           JObject [
                             (''route_name'', JString ''general''),
                             (''utterances'', JArray [
                                JString ''How are you?'',
                                JString ''What's up?'']),
                             (''response'', JString ''Hello! How can I assist you today?''),
                             (''score_threshold'', JFloat (9 / 10))]])])])]),
               (''toolchain'', JObject [
                  (''execution'', JString ''parallel''),
                  (''pipelines'', JArray [JArray [JString ''llm_agent'']])]),
               (''task_config'', JObject [
                  (''hangup_after_silence'', JInt 10),
                  (''incremental_delay'', JInt 400),
                  (''number_of_words_for_interruption'', JInt 2)])]])])]\<close>

text \<open>
  A tool returns what \<^verbatim>\<open>make_bolna_request\<close> returns. Where the source leaves out
  \<^verbatim>\<open>method\<close> and \<^verbatim>\<open>data\<close>, the defaults \<^verbatim>\<open>"GET"\<close> and \<^verbatim>\<open>None\<close> are
  written out.
\<close>

definition create_agent ::
  "env \<Rightarrow> string \<Rightarrow> string \<Rightarrow> string \<Rightarrow> world \<Rightarrow> (py_exception + json) \<times> world" where
  "create_agent e agent_name agent_type agent_welcome_message w =
     (let agent_config = get_required_agent_config agent_name agent_type agent_welcome_message;
          u = BOLNA_API_URL @ ''/agent''
      in make_bolna_request e u ''POST'' agent_config w)"

definition get_agents :: "env \<Rightarrow> world \<Rightarrow> (py_exception + json) \<times> world" where
  "get_agents e w =
     (let u = BOLNA_API_URL @ ''/agent/all''
      in make_bolna_request e u ''GET'' JNull w)"

definition get_agent :: "env \<Rightarrow> string \<Rightarrow> world \<Rightarrow> (py_exception + json) \<times> world" where
  "get_agent e agent_id w =
     (let u = BOLNA_API_URL @ ''/agent/'' @ agent_id
      in make_bolna_request e u ''GET'' JNull w)"

definition update_agent ::
  "env \<Rightarrow> string \<Rightarrow> json \<Rightarrow> world \<Rightarrow> (py_exception + json) \<times> world" where
  "update_agent e agent_id agent_config w =
     (let u = BOLNA_API_URL @ ''/agent/'' @ agent_id
      in make_bolna_request e u ''PUT'' agent_config w)"

text \<open>
  \<^verbatim>\<open>delete_agent\<close> passes no data, and replaces a \<^verbatim>\<open>None\<close> from the client by
  the dict \<^verbatim>\<open>{"status": "deleted"}\<close>.
\<close>

definition deleted_status :: json where
  "deleted_status = JObject [(''status'', JString ''deleted'')]"

definition delete_agent :: "env \<Rightarrow> string \<Rightarrow> world \<Rightarrow> (py_exception + json) \<times> world" where
  "delete_agent e agent_id w =
     (let u = BOLNA_API_URL @ ''/agent/'' @ agent_id
      in case make_bolna_request e u ''DELETE'' JNull w of
           (Inl ex, w') \<Rightarrow> (Inl ex, w')
         | (Inr response, w') \<Rightarrow>
             (Inr (if response = JNull then deleted_status else response), w'))"

definition execute_agent ::
  "env \<Rightarrow> string \<Rightarrow> json \<Rightarrow> world \<Rightarrow> (py_exception + json) \<times> world" where
  "execute_agent e agent_id execution_data w =
     (let u = BOLNA_API_URL @ ''/executions/'' @ agent_id
      in make_bolna_request e u ''POST'' execution_data w)"

definition get_execution_status ::
  "env \<Rightarrow> string \<Rightarrow> world \<Rightarrow> (py_exception + json) \<times> world" where
  "get_execution_status e execution_id w =
     (let u = BOLNA_API_URL @ ''/executions/status/'' @ execution_id
      in make_bolna_request e u ''GET'' JNull w)"

section \<open>The catalog\<close>

text \<open>
  What a registration with \<^verbatim>\<open>@mcp.tool()\<close> records of a function: its name, its
  parameters with their annotations, and its docstring (line by line, indentation of the
  block removed). These are the name, the parameter schema and the description a client
  is shown.
\<close>

datatype py_type = Str | Dict

record tool =
  tool_name :: string
  tool_params :: "(string \<times> py_type) list"
  tool_doc :: "string list"

definition create_agent_tool :: tool where
  \<open>create_agent_tool =
     \<lparr>tool_name = ''create_agent'',
      tool_params = [(''agent_name'', Str), (''agent_type'', Str),
                     (''agent_welcome_message'', Str)],
      tool_doc = [''Create a new voice AI agent with only the required fields.'',
                  [],
                  ''Args:'',
                  ''    agent_name: The name of the agent.'',
                  ''    agent_type: The type of the agent (e.g., "other").'',
                  ''    agent_welcome_message: The welcome message for the agent.'']\<rparr>\<close>

definition get_agents_tool :: tool where
  "get_agents_tool =
     \<lparr>tool_name = ''get_agents'',
      tool_params = [],
      tool_doc = [''Retrieve all voice AI agents.'']\<rparr>"

definition get_agent_tool :: tool where
  "get_agent_tool =
     \<lparr>tool_name = ''get_agent'',
      tool_params = [(''agent_id'', Str)],
      tool_doc = [''Retrieve a specific voice AI agent by ID.'',
                  [],
                  ''Args:'',
                  ''    agent_id: The ID of the agent to fetch.'']\<rparr>"

definition update_agent_tool :: tool where
  "update_agent_tool =
     \<lparr>tool_name = ''update_agent'',
      tool_params = [(''agent_id'', Str), (''agent_config'', Dict)],
      tool_doc = [''Update an existing voice AI agent.'',
                  [],
                  ''Args:'',
                  ''    agent_id: The ID of the agent to update.'',
                  ''    agent_config: The updated configuration for the agent.'']\<rparr>"

definition delete_agent_tool :: tool where
  "delete_agent_tool =
     \<lparr>tool_name = ''delete_agent'',
      tool_params = [(''agent_id'', Str)],
      tool_doc = [''Delete a voice AI agent.'',
                  [],
                  ''Args:'',
                  ''    agent_id: The ID of the agent to delete.'']\<rparr>"

definition execute_agent_tool :: tool where
  "execute_agent_tool =
     \<lparr>tool_name = ''execute_agent'',
      tool_params = [(''agent_id'', Str), (''execution_data'', Dict)],
      tool_doc = [''Execute a voice AI agent.'',
                  [],
                  ''Args:'',
                  ''    agent_id: The ID of the agent to execute.'',
                  ''    execution_data: The data to execute the agent with.'']\<rparr>"

definition get_execution_status_tool :: tool where
  "get_execution_status_tool =
     \<lparr>tool_name = ''get_execution_status'',
      tool_params = [(''execution_id'', Str)],
      tool_doc = [''Retrieve the status of a specific execution.'',
                  [],
                  ''Args:'',
                  ''    execution_id: The ID of the execution to check the status of.'']\<rparr>"

text \<open>
  The registry of \<^verbatim>\<open>mcp = FastMCP("BolnaVoiceAI")\<close>. It starts empty; a registration
  adds the tool unless one of that name is registered already. \<open>mcp\<close> is the registry
  once the module has run its decorators, in the order of the source. The server that
  \<^verbatim>\<open>handle_sse\<close> runs for a connection is this object's, so these are the tools a
  connected client is told of.
\<close>

definition add_tool :: "tool \<Rightarrow> tool list \<Rightarrow> tool list" where
  "add_tool t reg = (if tool_name t \<in> set (map tool_name reg) then reg else reg @ [t])"

definition mcp :: "tool list" where
  "mcp = foldl (\<lambda>reg t. add_tool t reg) []
     [create_agent_tool, get_agents_tool, get_agent_tool, update_agent_tool,
      delete_agent_tool, execute_agent_tool, get_execution_status_tool]"

text \<open>
  An invocation request that has passed the validation of its arguments: the tool and
  its arguments, typed as the function's parameters are. \<open>call_tool\<close> runs the function
  registered under that name.
\<close>

datatype invocation =
    Create_agent string string string
  | Get_agents
  | Get_agent string
  | Update_agent string json
  | Delete_agent string
  | Execute_agent string json
  | Get_execution_status string


fun call_tool :: "env \<Rightarrow> invocation \<Rightarrow> world \<Rightarrow> (py_exception + json) \<times> world" where
  "call_tool e (Create_agent n t m) w = create_agent e n t m w"
| "call_tool e Get_agents w = get_agents e w"
| "call_tool e (Get_agent a) w = get_agent e a w"
| "call_tool e (Update_agent a c) w = update_agent e a c w"
| "call_tool e (Delete_agent a) w = delete_agent e a w"
| "call_tool e (Execute_agent a d) w = execute_agent e a d w"
| "call_tool e (Get_execution_status x) w = get_execution_status e x w"

section \<open>Reading JSON values\<close>

text \<open>
  Python's subscripts on the values above, for stating what a request body holds:
  \<^verbatim>\<open>d[k]\<close> on a dict, \<^verbatim>\<open>xs[i]\<close> on a list (\<open>None\<close> where Python raises), a chain
  of subscripts, and \<^verbatim>\<open>len\<close>.
\<close>

datatype step = Key string | Index nat

fun subscript :: "json \<Rightarrow> step \<Rightarrow> json option" where
  "subscript (JObject kvs) (Key k) = map_of kvs k"
| "subscript (JArray xs) (Index i) = (if i < length xs then Some (xs ! i) else None)"
| "subscript _ _ = None"

fun lookup_path :: "json \<Rightarrow> step list \<Rightarrow> json option" where
  "lookup_path j [] = Some j"
| "lookup_path j (s # ss) =
     (case subscript j s of None \<Rightarrow> None | Some v \<Rightarrow> lookup_path v ss)"

fun py_len :: "json \<Rightarrow> nat option" where
  "py_len (JArray xs) = Some (length xs)"
| "py_len (JObject kvs) = Some (length kvs)"
| "py_len (JString s) = Some (length s)"
| "py_len _ = None"

section \<open>A stubbed upstream\<close>

text \<open>
  Concrete surroundings for running the program on examples: a response with status 200
  and a JSON body; an environment in which the client is created and closed without an
  exception, printing works and the network gives the same answer to every call; and a
  world in which nothing has been sent or printed yet.
\<close>

definition ok_response :: "json \<Rightarrow> response" where
  "ok_response B = \<lparr>status_code = 200, json_result = Inr B\<rparr>"

definition stub_env :: "(py_exception + response) \<Rightarrow> env" where
  "stub_env answer =
     \<lparr>API_KEY = Some ''secret'', client_enter = None, send = (\<lambda>r. answer),
      status_error_text = (\<lambda>code u. ''bad status for url '' @ u),
      print_raises = (\<lambda>l. None), client_exit = None\<rparr>"

definition empty_world :: world where
  "empty_world = \<lparr>sent = [], stdout = []\<rparr>"

section \<open>Properties\<close>

subsection \<open>Auxiliary facts\<close>

lemma build_call_other:
  "method \<noteq> ''POST'' \<Longrightarrow> method \<noteq> ''PUT'' \<Longrightarrow> method \<noteq> ''DELETE'' \<Longrightarrow>
   build_call e u method d = client_get e u"
  by (simp add: build_call_def)

lemma build_call_url: "req_url (build_call e u method d) = u"
  by (simp add: build_call_def client_post_def client_put_def client_delete_def
      client_get_def)

lemma sent_with_client:
  "sent (snd (with_client e u method d w)) = sent w @ [build_call e u method d]"
  by (simp add: with_client_def handle_exception_def Let_def print_line_def
      split: sum.splits option.splits)

lemma sent_make_bolna_request:
  "client_enter e = None \<Longrightarrow>
   sent (snd (make_bolna_request e u method d w)) = sent w @ [build_call e u method d]"
  by (simp add: make_bolna_request_def sent_with_client split: option.splits)

lemma make_bolna_request_returned:
  assumes "client_enter e = None" and "client_exit e = None"
    and "try_block e (build_call e u method d) = Inr v"
  shows "make_bolna_request e u method d w =
           (Inr v, w\<lparr>sent := sent w @ [build_call e u method d]\<rparr>)"
  using assms by (simp add: make_bolna_request_def with_client_def Let_def)

lemma make_bolna_request_caught:
  assumes "client_enter e = None" and "client_exit e = None"
    and "try_block e (build_call e u method d) = Inl ex"
    and "except_clauses ex = Some l" and "print_raises e l = None"
  shows "make_bolna_request e u method d w =
           (Inr JNull, w\<lparr>sent := sent w @ [build_call e u method d],
                          stdout := stdout w @ [l]\<rparr>)"
  using assms
  by (simp add: make_bolna_request_def with_client_def handle_exception_def Let_def
      print_line_def)

text \<open>The ways an exception leaves \<^verbatim>\<open>make_bolna_request\<close>.\<close>

lemma enter_failure_propagates:
  "client_enter e = Some ex \<Longrightarrow> make_bolna_request e u method d w = (Inl ex, w)"
  by (simp add: make_bolna_request_def)

lemma exit_failure_propagates:
  "client_enter e = None \<Longrightarrow> client_exit e = Some ex \<Longrightarrow>
   fst (make_bolna_request e u method d w) = Inl ex"
  by (simp add: make_bolna_request_def)

lemma uncaught_class_propagates:
  assumes "client_enter e = None" and "client_exit e = None"
    and "try_block e (build_call e u method d) = Inl (Exc c m)" and "\<not> is_Exception c"
  shows "fst (make_bolna_request e u method d w) = Inl (Exc c m)"
proof -
  from assms(4) have "c \<noteq> HTTPStatusError" by auto
  with assms show ?thesis
    by (simp add: make_bolna_request_def with_client_def handle_exception_def Let_def)
qed

lemma print_failure_propagates:
  assumes "client_enter e = None" and "client_exit e = None"
    and "try_block e (build_call e u method d) = Inl ex"
    and "except_clauses ex = Some l" and "print_raises e l = Some ex'"
  shows "fst (make_bolna_request e u method d w) = Inl ex'"
  using assms
  by (simp add: make_bolna_request_def with_client_def handle_exception_def Let_def)

lemma except_clauses_caught:
  "is_Exception c \<Longrightarrow>
   except_clauses (Exc c m) =
     Some ((if c = HTTPStatusError then ''HTTP error occurred: ''
            else ''An error occurred: '') @ m)"
  by simp

lemma try_block_ok:
  "send e r = Inr (ok_response B) \<Longrightarrow> try_block e r = Inr B"
  by (simp add: try_block_def raise_for_status_def ok_response_def)

lemma sent_create_agent:
  "client_enter e = None \<Longrightarrow>
   sent (snd (create_agent e n t m w)) =
     sent w @ [client_post e (BOLNA_API_URL @ ''/agent'') (get_required_agent_config n t m)]"
  by (simp add: create_agent_def Let_def sent_make_bolna_request build_call_def)

lemma sent_get_agents:
  "client_enter e = None \<Longrightarrow>
   sent (snd (get_agents e w)) = sent w @ [client_get e (BOLNA_API_URL @ ''/agent/all'')]"
  by (simp add: get_agents_def Let_def sent_make_bolna_request build_call_def)

lemma sent_get_agent:
  "client_enter e = None \<Longrightarrow>
   sent (snd (get_agent e a w)) = sent w @ [client_get e (BOLNA_API_URL @ ''/agent/'' @ a)]"
  by (simp add: get_agent_def Let_def sent_make_bolna_request build_call_def)

lemma sent_update_agent:
  "client_enter e = None \<Longrightarrow>
   sent (snd (update_agent e a c w)) =
     sent w @ [client_put e (BOLNA_API_URL @ ''/agent/'' @ a) c]"
  by (simp add: update_agent_def Let_def sent_make_bolna_request build_call_def)

lemma snd_delete_agent:
  "snd (delete_agent e a w) =
     snd (make_bolna_request e (BOLNA_API_URL @ ''/agent/'' @ a) ''DELETE'' JNull w)"
  by (simp add: delete_agent_def Let_def split: prod.splits sum.splits)

lemma sent_delete_agent:
  "client_enter e = None \<Longrightarrow>
   sent (snd (delete_agent e a w)) =
     sent w @ [client_delete e (BOLNA_API_URL @ ''/agent/'' @ a)]"
  by (simp add: snd_delete_agent sent_make_bolna_request build_call_def)

lemma sent_execute_agent:
  "client_enter e = None \<Longrightarrow>
   sent (snd (execute_agent e a d w)) =
     sent w @ [client_post e (BOLNA_API_URL @ ''/executions/'' @ a) d]"
  by (simp add: execute_agent_def Let_def sent_make_bolna_request build_call_def)

lemma sent_get_execution_status:
  "client_enter e = None \<Longrightarrow>
   sent (snd (get_execution_status e x w)) =
     sent w @ [client_get e (BOLNA_API_URL @ ''/executions/status/'' @ x)]"
  by (simp add: get_execution_status_def Let_def sent_make_bolna_request build_call_def)

lemmas sent_tool = sent_create_agent sent_get_agents sent_get_agent sent_update_agent
  sent_delete_agent sent_execute_agent sent_get_execution_status

lemma fst_delete_agent:
  "fst (delete_agent e a w) =
     (case fst (make_bolna_request e (BOLNA_API_URL @ ''/agent/'' @ a) ''DELETE'' JNull w) of
        Inl ex \<Rightarrow> Inl ex
      | Inr v \<Rightarrow> Inr (if v = JNull then deleted_status else v))"
  by (simp add: delete_agent_def Let_def split: prod.splits sum.splits)


lemma client_headers:
  "req_headers (client_post e u d) = HEADERS e"
  "req_headers (client_put e u d) = HEADERS e"
  "req_headers (client_delete e u) = HEADERS e"
  "req_headers (client_get e u) = HEADERS e"
  by (simp_all add: client_post_def client_put_def client_delete_def client_get_def)

lemma client_timeout:
  "req_timeout (client_post e u d) = 30"
  "req_timeout (client_put e u d) = 30"
  "req_timeout (client_delete e u) = 30"
  "req_timeout (client_get e u) = 30"
  by (simp_all add: client_post_def client_put_def client_delete_def client_get_def)

lemma build_call_headers: "req_headers (build_call e u method d) = HEADERS e"
  by (simp add: build_call_def client_headers)

lemma build_call_timeout: "req_timeout (build_call e u method d) = 30"
  by (simp add: build_call_def client_timeout)

lemma stub_env_simps:
  "client_enter (stub_env a) = None"
  "client_exit (stub_env a) = None"
  "print_raises (stub_env a) l = None"
  "send (stub_env a) r = a"
  "API_KEY (stub_env a) = Some ''secret''"
  "status_error_text (stub_env a) code u = ''bad status for url '' @ u"
  by (simp_all add: stub_env_def)

subsection \<open>The claims\<close>

text \<open>
  C10. \<^verbatim>\<open>make_bolna_request\<close> accepts every method string: one that is not exactly
  \<^verbatim>\<open>"POST"\<close>, \<^verbatim>\<open>"PUT"\<close> or \<^verbatim>\<open>"DELETE"\<close> (a lowercase variant, any other
  text) behaves in every respect as \<^verbatim>\<open>"GET"\<close> does. Once the client is created, the one
  call issued is a GET with no body. No branch rejects the method: when the client is
  created and closed without an exception, the diagnostic can be printed and the
  exceptions of the \<^verbatim>\<open>try\<close> block derive from \<^verbatim>\<open>Exception\<close>, the function returns
  a value.
\<close>

theorem unknown_method_issues_get:
  assumes "method \<noteq> ''POST''" and "method \<noteq> ''PUT''" and "method \<noteq> ''DELETE''"
  shows "make_bolna_request e u method d w = make_bolna_request e u ''GET'' d w
       \<and> (client_enter e = None \<longrightarrow>
           sent (snd (make_bolna_request e u method d w)) =
             sent w @ [\<lparr>req_verb = GET, req_url = u, req_json = None,
                        req_headers = HEADERS e, req_timeout = 30\<rparr>])
       \<and> (client_enter e = None \<and> client_exit e = None
            \<and> (\<forall>l. print_raises e l = None)
            \<and> (\<forall>c m. try_block e (client_get e u) = Inl (Exc c m) \<longrightarrow> is_Exception c)
           \<longrightarrow> (\<exists>v. fst (make_bolna_request e u method d w) = Inr v))"
proof -
  have b: "build_call e u method d = client_get e u"
    using assms by (rule build_call_other)
  have g: "build_call e u ''GET'' d = client_get e u"
    by (simp add: build_call_def)
  have "with_client e u method d w = with_client e u ''GET'' d w"
    by (simp add: with_client_def b g)
  then have same: "make_bolna_request e u method d w = make_bolna_request e u ''GET'' d w"
    by (simp add: make_bolna_request_def split: option.splits)
  have call: "sent (snd (make_bolna_request e u method d w)) =
      sent w @ [\<lparr>req_verb = GET, req_url = u, req_json = None,
                 req_headers = HEADERS e, req_timeout = 30\<rparr>]"
    if "client_enter e = None"
    using that by (simp add: sent_make_bolna_request b client_get_def)
  have returns: "\<exists>v. fst (make_bolna_request e u method d w) = Inr v"
    if enter: "client_enter e = None" and exit: "client_exit e = None"
      and pr: "\<forall>l. print_raises e l = None"
      and cls: "\<forall>c m. try_block e (client_get e u) = Inl (Exc c m) \<longrightarrow> is_Exception c"
  proof (cases "try_block e (build_call e u method d)")
    case (Inr v)
    from make_bolna_request_returned [OF enter exit Inr] show ?thesis by simp
  next
    case (Inl ex)
    obtain c m where ex: "ex = Exc c m" by (cases ex)
    with Inl cls b have "is_Exception c" by simp
    then have l: "except_clauses ex =
        Some ((if c = HTTPStatusError then ''HTTP error occurred: ''
               else ''An error occurred: '') @ m)"
      unfolding ex by (rule except_clauses_caught)
    from pr have "print_raises e ((if c = HTTPStatusError then ''HTTP error occurred: ''
               else ''An error occurred: '') @ m) = None" by simp
    from make_bolna_request_caught [OF enter exit Inl l this] show ?thesis by simp
  qed
  from same call returns show ?thesis by blast
qed

theorem unknown_method_issues_get_witness:
  "make_bolna_request (stub_env (Inr (ok_response (JString ''pong'')))) ''http://h/p'' ''get''
      (JInt 1) empty_world
    = (Inr (JString ''pong''),
       \<lparr>sent = [\<lparr>req_verb = GET, req_url = ''http://h/p'', req_json = None,
                 req_headers = [(''Authorization'', ''Bearer secret''),
                                (''Content-Type'', ''application/json'')],
                 req_timeout = 30\<rparr>],
        stdout = []\<rparr>)"
proof -
  let ?e = "stub_env (Inr (ok_response (JString ''pong'')))"
  have "''get'' \<noteq> ''POST''" and "''get'' \<noteq> ''PUT''" and "''get'' \<noteq> ''DELETE''"
    by simp_all
  note inst = unknown_method_issues_get [OF this, of ?e "''http://h/p''" "JInt 1" empty_world]
  have enter: "client_enter ?e = None" by (simp add: stub_env_simps)
  from inst have same: "make_bolna_request ?e ''http://h/p'' ''get'' (JInt 1) empty_world =
      make_bolna_request ?e ''http://h/p'' ''GET'' (JInt 1) empty_world"
    by blast
  from inst enter have call: "sent (snd (make_bolna_request ?e ''http://h/p'' ''get'' (JInt 1)
      empty_world)) = sent empty_world @ [\<lparr>req_verb = GET, req_url = ''http://h/p'',
        req_json = None, req_headers = HEADERS ?e, req_timeout = 30\<rparr>]"
    by blast
  have "make_bolna_request ?e ''http://h/p'' ''GET'' (JInt 1) empty_world =
      (Inr (JString ''pong''),
       \<lparr>sent = [\<lparr>req_verb = GET, req_url = ''http://h/p'', req_json = None,
                 req_headers = [(''Authorization'', ''Bearer secret''),
                                (''Content-Type'', ''application/json'')],
                 req_timeout = 30\<rparr>],
        stdout = []\<rparr>)"
    by (simp add: make_bolna_request_def with_client_def build_call_def client_get_def
        try_block_def raise_for_status_def stub_env_def ok_response_def empty_world_def
        HEADERS_def format_str_or_none_def)
  with same show ?thesis by simp
qed




text \<open>
  C2. \<^verbatim>\<open>delete_agent\<close>, for every agent id: when the call of the upstream client
  returns \<^verbatim>\<open>None\<close>, the tool returns \<^verbatim>\<open>{"status": "deleted"}\<close>; when it returns a
  JSON body, the tool returns that body unchanged. The tool does nothing else: the world
  after it is the world after the client call.
\<close>

theorem delete_agent_coerces_absent:
  "(fst (make_bolna_request e (BOLNA_API_URL @ ''/agent/'' @ agent_id) ''DELETE'' JNull w) = Inr JNull
      \<longrightarrow> fst (delete_agent e agent_id w) = Inr (JObject [(''status'', JString ''deleted'')]))
   \<and> (\<forall>B. B \<noteq> JNull
      \<longrightarrow> fst (make_bolna_request e (BOLNA_API_URL @ ''/agent/'' @ agent_id) ''DELETE'' JNull w) = Inr B
      \<longrightarrow> fst (delete_agent e agent_id w) = Inr B)
   \<and> snd (delete_agent e agent_id w)
       = snd (make_bolna_request e (BOLNA_API_URL @ ''/agent/'' @ agent_id) ''DELETE'' JNull w)"
  by (simp add: fst_delete_agent snd_delete_agent deleted_status_def)

theorem delete_agent_coerces_absent_witness:
  "fst (make_bolna_request (stub_env (Inr \<lparr>status_code = 500, json_result = Inr (JString ''down'')\<rparr>))
          (BOLNA_API_URL @ ''/agent/'' @ ''abc'') ''DELETE'' JNull empty_world) = Inr JNull
   \<and> fst (delete_agent (stub_env (Inr \<lparr>status_code = 500, json_result = Inr (JString ''down'')\<rparr>))
          ''abc'' empty_world) = Inr (JObject [(''status'', JString ''deleted'')])
   \<and> JObject [(''message'', JString ''success'')] \<noteq> JNull
   \<and> fst (make_bolna_request (stub_env (Inr (ok_response (JObject [(''message'', JString ''success'')]))))
          (BOLNA_API_URL @ ''/agent/'' @ ''abc'') ''DELETE'' JNull empty_world)
       = Inr (JObject [(''message'', JString ''success'')])
   \<and> fst (delete_agent (stub_env (Inr (ok_response (JObject [(''message'', JString ''success'')]))))
          ''abc'' empty_world) = Inr (JObject [(''message'', JString ''success'')])"
proof -
  let ?down = "stub_env (Inr \<lparr>status_code = 500, json_result = Inr (JString ''down'')\<rparr>)"
  let ?B = "JObject [(''message'', JString ''success'')]"
  let ?up = "stub_env (Inr (ok_response ?B))"
  let ?u = "BOLNA_API_URL @ ''/agent/'' @ ''abc''"
  have "try_block ?down (build_call ?down ?u ''DELETE'' JNull) =
      Inl (Exc HTTPStatusError (''bad status for url '' @ ?u))"
    by (simp add: try_block_def raise_for_status_def stub_env_simps build_call_url)
  from make_bolna_request_caught [OF _ _ this, of _ empty_world]
  have a: "fst (make_bolna_request ?down ?u ''DELETE'' JNull empty_world) = Inr JNull"
    by (simp add: stub_env_simps)
  have "try_block ?up (build_call ?up ?u ''DELETE'' JNull) = Inr ?B"
    by (rule try_block_ok) (simp add: stub_env_simps)
  from make_bolna_request_returned [OF _ _ this, of empty_world]
  have b: "fst (make_bolna_request ?up ?u ''DELETE'' JNull empty_world) = Inr ?B"
    by (simp add: stub_env_simps)
  have c: "?B \<noteq> JNull" by simp
  from delete_agent_coerces_absent [of ?down "''abc''" empty_world] a
  have d: "fst (delete_agent ?down ''abc'' empty_world) = Inr (JObject [(''status'', JString ''deleted'')])"
    by blast
  from delete_agent_coerces_absent [of ?up "''abc''" empty_world] b c
  have f: "fst (delete_agent ?up ''abc'' empty_world) = Inr ?B"
    by blast
  from a b c d f show ?thesis by blast
qed

text \<open>
  C3. The specification states that the upstream client never lets an exception out,
  whatever the URL, the method and the body. The \<^verbatim>\<open>try\<close> statement does not cover
  line 39, where the client is created and entered: an exception raised there (httpx
  raises \<^verbatim>\<open>ValueError\<close> for a proxy setting it cannot use) leaves
  \<^verbatim>\<open>make_bolna_request\<close>, and no call is issued.
\<close>

theorem client_creation_failure_counterexample:
  "make_bolna_request
     ((stub_env (Inr (ok_response (JObject []))))
        \<lparr>client_enter := Some (Exc ValueError ''Unknown scheme for proxy URL'')\<rparr>)
     ''https://api.bolna.ai/v2/agent/all'' ''GET'' JNull empty_world
   = (Inl (Exc ValueError ''Unknown scheme for proxy URL''), empty_world)"
  by (simp add: make_bolna_request_def stub_env_def)

text \<open>
  C3, as amended. Provided the client is created and closed without an exception and
  the diagnostic can be printed, the upstream client absorbs every failure of the call
  that is an exception deriving from \<^verbatim>\<open>Exception\<close>: when the answer has a status
  outside 200 to 299, when the network call itself fails (a timeout, a refused
  connection, any other exception of the client), and when an answer with a success
  status has a body that is not JSON, the call returns \<^verbatim>\<open>None\<close> and prints exactly one
  diagnostic line; the caller gets \<^verbatim>\<open>None\<close> and nothing that tells the failures apart.
  When no exception of the call derives from \<^verbatim>\<open>BaseException\<close> only, every call
  returns a value.
\<close>

theorem upstream_client_absorbs_failures:
  assumes enter: "client_enter e = None" and exit: "client_exit e = None"
    and pr: "\<And>l. print_raises e l = None"
  shows
   "(\<forall>resp. send e (build_call e u method d) = Inr resp
         \<longrightarrow> \<not> (200 \<le> status_code resp \<and> status_code resp \<le> 299)
         \<longrightarrow> make_bolna_request e u method d w =
               (Inr JNull,
                w\<lparr>sent := sent w @ [build_call e u method d],
                  stdout := stdout w @
                    [''HTTP error occurred: '' @ status_error_text e (status_code resp) u]\<rparr>))
   \<and> (\<forall>c m. send e (build_call e u method d) = Inl (Exc c m)
         \<longrightarrow> is_Exception c
         \<longrightarrow> make_bolna_request e u method d w =
               (Inr JNull,
                w\<lparr>sent := sent w @ [build_call e u method d],
                  stdout := stdout w @
                    [(if c = HTTPStatusError then ''HTTP error occurred: ''
                      else ''An error occurred: '') @ m]\<rparr>))
   \<and> (\<forall>resp c m. send e (build_call e u method d) = Inr resp
         \<longrightarrow> 200 \<le> status_code resp \<and> status_code resp \<le> 299
         \<longrightarrow> json_result resp = Inl (Exc c m)
         \<longrightarrow> is_Exception c
         \<longrightarrow> make_bolna_request e u method d w =
               (Inr JNull,
                w\<lparr>sent := sent w @ [build_call e u method d],
                  stdout := stdout w @
                    [(if c = HTTPStatusError then ''HTTP error occurred: ''
                      else ''An error occurred: '') @ m]\<rparr>))
   \<and> ((\<forall>c m. send e (build_call e u method d) = Inl (Exc c m) \<longrightarrow> is_Exception c)
       \<and> (\<forall>resp c m. send e (build_call e u method d) = Inr resp
             \<longrightarrow> json_result resp = Inl (Exc c m) \<longrightarrow> is_Exception c)
       \<longrightarrow> (\<exists>v. fst (make_bolna_request e u method d w) = Inr v))"
proof -
  let ?r = "build_call e u method d"
  have caught: "make_bolna_request e u method d w =
      (Inr JNull,
       w\<lparr>sent := sent w @ [?r],
         stdout := stdout w @
           [(if c = HTTPStatusError then ''HTTP error occurred: ''
             else ''An error occurred: '') @ m]\<rparr>)"
    if "try_block e ?r = Inl (Exc c m)" and "is_Exception c" for c m
    using enter exit that(1) except_clauses_caught [OF that(2)] pr
    by (rule make_bolna_request_caught)
  have status: "make_bolna_request e u method d w =
      (Inr JNull,
       w\<lparr>sent := sent w @ [?r],
         stdout := stdout w @
           [''HTTP error occurred: '' @ status_error_text e (status_code resp) u]\<rparr>)"
    if "send e ?r = Inr resp"
      and "\<not> (200 \<le> status_code resp \<and> status_code resp \<le> 299)" for resp
  proof -
    from that have "try_block e ?r =
        Inl (Exc HTTPStatusError (status_error_text e (status_code resp) u))"
      by (auto simp add: try_block_def raise_for_status_def build_call_url)
    from caught [OF this] show ?thesis by simp
  qed
  have transport: "make_bolna_request e u method d w =
      (Inr JNull,
       w\<lparr>sent := sent w @ [?r],
         stdout := stdout w @
           [(if c = HTTPStatusError then ''HTTP error occurred: ''
             else ''An error occurred: '') @ m]\<rparr>)"
    if "send e ?r = Inl (Exc c m)" and "is_Exception c" for c m
  proof -
    from that(1) have "try_block e ?r = Inl (Exc c m)"
      by (simp add: try_block_def)
    from caught [OF this that(2)] show ?thesis .
  qed
  have malformed: "make_bolna_request e u method d w =
      (Inr JNull,
       w\<lparr>sent := sent w @ [?r],
         stdout := stdout w @
           [(if c = HTTPStatusError then ''HTTP error occurred: ''
             else ''An error occurred: '') @ m]\<rparr>)"
    if "send e ?r = Inr resp" and "200 \<le> status_code resp \<and> status_code resp \<le> 299"
      and "json_result resp = Inl (Exc c m)" and "is_Exception c" for resp c m
  proof -
    from that(1-3) have "try_block e ?r = Inl (Exc c m)"
      by (simp add: try_block_def raise_for_status_def)
    from caught [OF this that(4)] show ?thesis .
  qed
  have returns: "\<exists>v. fst (make_bolna_request e u method d w) = Inr v"
    if t: "\<forall>c m. send e ?r = Inl (Exc c m) \<longrightarrow> is_Exception c"
      and j: "\<forall>resp c m. send e ?r = Inr resp
             \<longrightarrow> json_result resp = Inl (Exc c m) \<longrightarrow> is_Exception c"
  proof (cases "try_block e ?r")
    case (Inr v)
    from make_bolna_request_returned [OF enter exit Inr] show ?thesis by simp
  next
    case (Inl ex)
    obtain c m where ex: "ex = Exc c m" by (cases ex)
    have "is_Exception c"
    proof (cases "send e ?r")
      case (Inl ex')
      with \<open>try_block e ?r = Inl ex\<close> have "send e ?r = Inl (Exc c m)"
        by (simp add: try_block_def ex)
      with t show ?thesis by blast
    next
      case (Inr resp)
      show ?thesis
      proof (cases "200 \<le> status_code resp \<and> status_code resp \<le> 299")
        case True
        with Inr \<open>try_block e ?r = Inl ex\<close> have "json_result resp = Inl (Exc c m)"
          by (simp add: try_block_def raise_for_status_def ex)
        with j Inr show ?thesis by blast
      next
        case False
        with Inr \<open>try_block e ?r = Inl ex\<close> have "c = HTTPStatusError"
          by (auto simp add: try_block_def raise_for_status_def ex)
        then show ?thesis by simp
      qed
    qed
    from caught [OF Inl [unfolded ex] this] show ?thesis by simp
  qed
  from status transport malformed returns show ?thesis by blast
qed

theorem upstream_client_absorbs_failures_witness:
  "make_bolna_request (stub_env (Inr \<lparr>status_code = 503, json_result = Inr (JString ''busy'')\<rparr>))
      ''https://api.bolna.ai/v2/agent/all'' ''GET'' JNull empty_world
     = (Inr JNull,
        \<lparr>sent = [client_get (stub_env (Inr \<lparr>status_code = 503, json_result = Inr (JString ''busy'')\<rparr>))
                   ''https://api.bolna.ai/v2/agent/all''],
         stdout = [''HTTP error occurred: bad status for url https://api.bolna.ai/v2/agent/all'']\<rparr>)
   \<and> make_bolna_request (stub_env (Inl (Exc TimeoutException ''timed out'')))
      ''https://api.bolna.ai/v2/agent/all'' ''GET'' JNull empty_world
     = (Inr JNull,
        \<lparr>sent = [client_get (stub_env (Inl (Exc TimeoutException ''timed out'')))
                   ''https://api.bolna.ai/v2/agent/all''],
         stdout = [''An error occurred: timed out'']\<rparr>)
   \<and> make_bolna_request
        (stub_env (Inr \<lparr>status_code = 204,
                         json_result = Inl (Exc JSONDecodeError ''Expecting value'')\<rparr>))
      ''https://api.bolna.ai/v2/agent/abc'' ''DELETE'' JNull empty_world
     = (Inr JNull,
        \<lparr>sent = [client_delete
                   (stub_env (Inr \<lparr>status_code = 204,
                                    json_result = Inl (Exc JSONDecodeError ''Expecting value'')\<rparr>))
                   ''https://api.bolna.ai/v2/agent/abc''],
         stdout = [''An error occurred: Expecting value'']\<rparr>)"
proof -
  let ?u = "''https://api.bolna.ai/v2/agent/all''"
  let ?v = "''https://api.bolna.ai/v2/agent/abc''"
  let ?busy = "stub_env (Inr \<lparr>status_code = 503, json_result = Inr (JString ''busy'')\<rparr>)"
  let ?slow = "stub_env (Inl (Exc TimeoutException ''timed out''))"
  let ?empty = "stub_env (Inr \<lparr>status_code = 204,
                         json_result = Inl (Exc JSONDecodeError ''Expecting value'')\<rparr>)"
  have healthy: "client_enter (stub_env a) = None" "client_exit (stub_env a) = None"
    "\<And>l. print_raises (stub_env a) l = None" for a
    by (simp_all add: stub_env_simps)
  have b: "build_call e ?u ''GET'' JNull = client_get e ?u"
    "build_call e ?v ''DELETE'' JNull = client_delete e ?v" for e
    by (simp_all add: build_call_def)
  have s1: "send ?busy (build_call ?busy ?u ''GET'' JNull)
      = Inr \<lparr>status_code = 503, json_result = Inr (JString ''busy'')\<rparr>"
    by (simp add: stub_env_simps)
  have n1: "\<not> (200 \<le> status_code \<lparr>status_code = 503, json_result = Inr (JString ''busy'')\<rparr>
      \<and> status_code \<lparr>status_code = 503, json_result = Inr (JString ''busy'')\<rparr> \<le> 299)"
    by simp
  have s2: "send ?slow (build_call ?slow ?u ''GET'' JNull) = Inl (Exc TimeoutException ''timed out'')"
    by (simp add: stub_env_simps)
  have c2: "is_Exception TimeoutException" and c3: "is_Exception JSONDecodeError"
    by simp_all
  have s3: "send ?empty (build_call ?empty ?v ''DELETE'' JNull)
      = Inr \<lparr>status_code = 204, json_result = Inl (Exc JSONDecodeError ''Expecting value'')\<rparr>"
    by (simp add: stub_env_simps)
  have n3: "200 \<le> status_code \<lparr>status_code = 204,
        json_result = Inl (Exc JSONDecodeError ''Expecting value'')\<rparr>
      \<and> status_code \<lparr>status_code = 204,
        json_result = Inl (Exc JSONDecodeError ''Expecting value'')\<rparr> \<le> 299"
    and j3: "json_result \<lparr>status_code = 204,
        json_result = Inl (Exc JSONDecodeError ''Expecting value'')\<rparr>
      = Inl (Exc JSONDecodeError ''Expecting value'')"
    by simp_all
  from upstream_client_absorbs_failures [of ?busy ?u "''GET''" JNull empty_world, OF healthy]
    s1 n1
  have r1: "make_bolna_request ?busy ?u ''GET'' JNull empty_world =
      (Inr JNull,
       empty_world\<lparr>sent := sent empty_world @ [build_call ?busy ?u ''GET'' JNull],
         stdout := stdout empty_world @
           [''HTTP error occurred: '' @ status_error_text ?busy
               (status_code \<lparr>status_code = 503, json_result = Inr (JString ''busy'')\<rparr>) ?u]\<rparr>)"
    by blast
  from upstream_client_absorbs_failures [of ?slow ?u "''GET''" JNull empty_world, OF healthy]
    s2 c2
  have r2: "make_bolna_request ?slow ?u ''GET'' JNull empty_world =
      (Inr JNull,
       empty_world\<lparr>sent := sent empty_world @ [build_call ?slow ?u ''GET'' JNull],
         stdout := stdout empty_world @
           [(if TimeoutException = HTTPStatusError then ''HTTP error occurred: ''
             else ''An error occurred: '') @ ''timed out'']\<rparr>)"
    by blast
  from upstream_client_absorbs_failures [of ?empty ?v "''DELETE''" JNull empty_world, OF healthy]
    s3 n3 j3 c3
  have r3: "make_bolna_request ?empty ?v ''DELETE'' JNull empty_world =
      (Inr JNull,
       empty_world\<lparr>sent := sent empty_world @ [build_call ?empty ?v ''DELETE'' JNull],
         stdout := stdout empty_world @
           [(if JSONDecodeError = HTTPStatusError then ''HTTP error occurred: ''
             else ''An error occurred: '') @ ''Expecting value'']\<rparr>)"
    by blast
  have "make_bolna_request ?busy ?u ''GET'' JNull empty_world =
     (Inr JNull, \<lparr>sent = [client_get ?busy ?u],
         stdout = [''HTTP error occurred: bad status for url https://api.bolna.ai/v2/agent/all'']\<rparr>)"
    unfolding r1 b by (simp add: empty_world_def stub_env_simps)
  moreover have "make_bolna_request ?slow ?u ''GET'' JNull empty_world =
     (Inr JNull, \<lparr>sent = [client_get ?slow ?u], stdout = [''An error occurred: timed out'']\<rparr>)"
    unfolding r2 b by (simp add: empty_world_def)
  moreover have "make_bolna_request ?empty ?v ''DELETE'' JNull empty_world =
     (Inr JNull, \<lparr>sent = [client_delete ?empty ?v],
        stdout = [''An error occurred: Expecting value'']\<rparr>)"
    unfolding r3 b by (simp add: empty_world_def)
  ultimately show ?thesis by blast
qed

text \<open>
  C4. The tools a connected client is told of. The specification states that the server
  advertises exactly 6 tools of the catalog. The module registers seven functions with
  \<^verbatim>\<open>@mcp.tool()\<close>, under seven different names, so the registry does not hold six.
\<close>

theorem catalog_not_six_counterexample: "length mcp \<noteq> 6"
  by (simp add: mcp_def add_tool_def create_agent_tool_def get_agents_tool_def
      get_agent_tool_def update_agent_tool_def delete_agent_tool_def execute_agent_tool_def
      get_execution_status_tool_def)

text \<open>
  C4, as amended. The server advertises exactly 7 tools of the catalog, each with its
  name, its parameters and its description: \<^verbatim>\<open>create_agent\<close>, \<^verbatim>\<open>get_agents\<close>,
  \<^verbatim>\<open>get_agent\<close>, \<^verbatim>\<open>update_agent\<close>, \<^verbatim>\<open>delete_agent\<close>, \<^verbatim>\<open>execute_agent\<close> and
  \<^verbatim>\<open>get_execution_status\<close>, in this order.
\<close>

theorem catalog_has_seven_tools:
  "mcp = [create_agent_tool, get_agents_tool, get_agent_tool, update_agent_tool,
          delete_agent_tool, execute_agent_tool, get_execution_status_tool]
   \<and> length mcp = 7
   \<and> map tool_name mcp =
       [''create_agent'', ''get_agents'', ''get_agent'', ''update_agent'',
        ''delete_agent'', ''execute_agent'', ''get_execution_status'']
   \<and> map tool_params mcp =
       [[(''agent_name'', Str), (''agent_type'', Str), (''agent_welcome_message'', Str)],
        [],
        [(''agent_id'', Str)],
        [(''agent_id'', Str), (''agent_config'', Dict)],
        [(''agent_id'', Str)],
        [(''agent_id'', Str), (''execution_data'', Dict)],
        [(''execution_id'', Str)]]
   \<and> map (\<lambda>t. hd (tool_doc t)) mcp =
       [''Create a new voice AI agent with only the required fields.'',
        ''Retrieve all voice AI agents.'',
        ''Retrieve a specific voice AI agent by ID.'',
        ''Update an existing voice AI agent.'',
        ''Delete a voice AI agent.'',
        ''Execute a voice AI agent.'',
        ''Retrieve the status of a specific execution.'']"
  by (simp add: mcp_def add_tool_def create_agent_tool_def get_agents_tool_def
      get_agent_tool_def update_agent_tool_def delete_agent_tool_def execute_agent_tool_def
      get_execution_status_tool_def)

text \<open>
  C5. For every agent name, agent type and welcome message, the one request of
  \<^verbatim>\<open>create_agent\<close> carries as its body the default configuration: the three strings
  of the caller in the fields named after them, exactly one task, of type conversation,
  whose LLM agent is a simple LLM agent with exactly one route, named general, with its
  two utterances, the canned response and the score threshold 0.9; a parallel toolchain
  with the single pipeline of the LLM agent; and the task configuration 10, 400 and 2.
  The request is issued once the client is created.
\<close>

theorem create_agent_sends_default_config:
  assumes "client_enter e = None"
  shows "\<exists>body task route.
     map req_json (drop (length (sent w))
       (sent (snd (create_agent e agent_name agent_type agent_welcome_message w)))) = [Some body]
   \<and> body = get_required_agent_config agent_name agent_type agent_welcome_message
   \<and> lookup_path body [Key ''agent_config'', Key ''agent_name''] = Some (JString agent_name)
   \<and> lookup_path body [Key ''agent_config'', Key ''agent_type''] = Some (JString agent_type)
   \<and> lookup_path body [Key ''agent_config'', Key ''agent_welcome_message'']
        = Some (JString agent_welcome_message)
   \<and> lookup_path body [Key ''agent_config'', Key ''tasks''] = Some (JArray [task])
   \<and> lookup_path task [Key ''task_type''] = Some (JString ''conversation'')
   \<and> lookup_path task [Key ''tools_config'', Key ''llm_agent'', Key ''agent_type'']
        = Some (JString ''simple_llm_agent'')
   \<and> lookup_path task [Key ''tools_config'', Key ''llm_agent'', Key ''routes'', Key ''routes'']
        = Some (JArray [route])
   \<and> lookup_path route [Key ''route_name''] = Some (JString ''general'')
   \<and> lookup_path route [Key ''utterances'']
        = Some (JArray [JString ''How are you?'', JString ''What's up?''])
   \<and> lookup_path route [Key ''response''] = Some (JString ''Hello! How can I assist you today?'')
   \<and> lookup_path route [Key ''score_threshold''] = Some (JFloat (9 / 10))
   \<and> lookup_path task [Key ''toolchain'', Key ''execution''] = Some (JString ''parallel'')
   \<and> lookup_path task [Key ''toolchain'', Key ''pipelines'']
        = Some (JArray [JArray [JString ''llm_agent'']])
   \<and> lookup_path task [Key ''task_config'', Key ''hangup_after_silence''] = Some (JInt 10)
   \<and> lookup_path task [Key ''task_config'', Key ''incremental_delay''] = Some (JInt 400)
   \<and> lookup_path task [Key ''task_config'', Key ''number_of_words_for_interruption'']
        = Some (JInt 2)"
  by (simp add: sent_create_agent [OF assms] client_post_def get_required_agent_config_def)

theorem create_agent_sends_default_config_witness:
  "map req_json (sent (snd (create_agent (stub_env (Inr (ok_response (JObject []))))
      ''Ava'' ''other'' ''Hello'' empty_world)))
     = [Some (get_required_agent_config ''Ava'' ''other'' ''Hello'')]
   \<and> lookup_path (get_required_agent_config ''Ava'' ''other'' ''Hello'')
        [Key ''agent_config'', Key ''agent_name''] = Some (JString ''Ava'')"
proof -
  let ?e = "stub_env (Inr (ok_response (JObject [])))"
  have "client_enter ?e = None" by (simp add: stub_env_simps)
  from create_agent_sends_default_config [OF this, of empty_world "''Ava''" "''other''" "''Hello''"]
  show ?thesis by (auto simp add: empty_world_def)
qed

text \<open>
  C6. \<^verbatim>\<open>update_agent\<close> and \<^verbatim>\<open>execute_agent\<close> send the object of the caller as the
  body of their request, as it is: the \<^verbatim>\<open>json=\<close> argument of the one call each of them
  issues is the value they were given.
  The call is issued once the client is created.
\<close>

theorem update_and_execute_pass_body_through:
  assumes "client_enter e = None"
  shows "map req_json (drop (length (sent w)) (sent (snd (update_agent e agent_id agent_config w))))
     = [Some agent_config]
   \<and> map req_json (drop (length (sent w)) (sent (snd (execute_agent e agent_id execution_data w))))
     = [Some execution_data]"
  by (simp add: sent_update_agent [OF assms] sent_execute_agent [OF assms]
      client_put_def client_post_def)

theorem update_and_execute_pass_body_through_witness:
  "map req_json (sent (snd (update_agent (stub_env (Inr (ok_response (JObject []))))
      ''abc'' (JObject [(''agent_name'', JString ''Ava'')]) empty_world)))
     = [Some (JObject [(''agent_name'', JString ''Ava'')])]
   \<and> map req_json (sent (snd (execute_agent (stub_env (Inr (ok_response (JObject []))))
      ''abc'' (JObject [(''recipient'', JString ''+100'')]) empty_world)))
     = [Some (JObject [(''recipient'', JString ''+100'')])]"
proof -
  let ?e = "stub_env (Inr (ok_response (JObject [])))"
  have "client_enter ?e = None" by (simp add: stub_env_simps)
  from update_and_execute_pass_body_through [OF this, of empty_world "''abc''"
      "JObject [(''agent_name'', JString ''Ava'')]" "JObject [(''recipient'', JString ''+100'')]"]
  show ?thesis by (simp add: empty_world_def)
qed

text \<open>
  C7. Every call of the upstream client, whatever the method string and whichever tool
  issued it, is one client call that carries the two fixed headers,
  \<^verbatim>\<open>Authorization: Bearer <API_KEY>\<close> (the key formatted as the f-string formats it) and
  \<^verbatim>\<open>Content-Type: application/json\<close>, and a timeout of 30 seconds.
  The call is issued once the client is created.
\<close>

theorem every_call_has_headers_and_timeout:
  assumes "client_enter e = None"
  shows "(\<exists>r. drop (length (sent w)) (sent (snd (make_bolna_request e u method d w))) = [r]
        \<and> req_headers r =
            [(''Authorization'',
              ''Bearer '' @ (case API_KEY e of None \<Rightarrow> ''None'' | Some k \<Rightarrow> k)),
             (''Content-Type'', ''application/json'')]
        \<and> req_timeout r = 30)
   \<and> (\<exists>r. drop (length (sent w)) (sent (snd (call_tool e c w))) = [r]
        \<and> req_headers r =
            [(''Authorization'',
              ''Bearer '' @ (case API_KEY e of None \<Rightarrow> ''None'' | Some k \<Rightarrow> k)),
             (''Content-Type'', ''application/json'')]
        \<and> req_timeout r = 30)"
proof -
  have h: "HEADERS e =
      [(''Authorization'', ''Bearer '' @ (case API_KEY e of None \<Rightarrow> ''None'' | Some k \<Rightarrow> k)),
       (''Content-Type'', ''application/json'')]"
    by (simp add: HEADERS_def format_str_or_none_def)
  have "\<exists>r. drop (length (sent w)) (sent (snd (make_bolna_request e u method d w))) = [r]
        \<and> req_headers r = HEADERS e \<and> req_timeout r = 30"
    by (simp add: sent_make_bolna_request [OF assms] build_call_headers build_call_timeout)
  moreover have "\<exists>r. drop (length (sent w)) (sent (snd (call_tool e c w))) = [r]
        \<and> req_headers r = HEADERS e \<and> req_timeout r = 30"
    by (cases c) (simp_all add: sent_tool [OF assms] client_headers client_timeout)
  ultimately show ?thesis unfolding h by blast
qed

theorem every_call_has_headers_and_timeout_witness:
  "(\<exists>r. sent (snd (make_bolna_request (stub_env (Inr (ok_response (JObject []))))
            ''https://api.bolna.ai/v2/agent/all'' ''PATCH'' JNull empty_world)) = [r]
      \<and> req_headers r = [(''Authorization'', ''Bearer secret''),
                          (''Content-Type'', ''application/json'')]
      \<and> req_timeout r = 30)
   \<and> (\<exists>r. sent (snd (call_tool (stub_env (Inr (ok_response (JObject []))))
            (Delete_agent ''abc'') empty_world)) = [r]
      \<and> req_headers r = [(''Authorization'', ''Bearer secret''),
                          (''Content-Type'', ''application/json'')]
      \<and> req_timeout r = 30)"
proof -
  let ?e = "stub_env (Inr (ok_response (JObject [])))"
  have "client_enter ?e = None" by (simp add: stub_env_simps)
  from every_call_has_headers_and_timeout [OF this, of empty_world
      "''https://api.bolna.ai/v2/agent/all''" "''PATCH''" JNull "Delete_agent ''abc''"]
  show ?thesis by (simp add: empty_world_def stub_env_simps)
qed

text \<open>
  C8. Each tool issues its call with the verb and the URL of the catalog table, under the
  fixed base URL: \<^verbatim>\<open>create_agent\<close> POST \<^verbatim>\<open>/agent\<close>, \<^verbatim>\<open>get_agents\<close> GET
  \<^verbatim>\<open>/agent/all\<close>, \<^verbatim>\<open>get_agent\<close> GET \<^verbatim>\<open>/agent/{agent_id}\<close>, \<^verbatim>\<open>update_agent\<close> PUT
  \<^verbatim>\<open>/agent/{agent_id}\<close>, \<^verbatim>\<open>delete_agent\<close> DELETE \<^verbatim>\<open>/agent/{agent_id}\<close>,
  \<^verbatim>\<open>execute_agent\<close> POST \<^verbatim>\<open>/executions/{agent_id}\<close> and \<^verbatim>\<open>get_execution_status\<close>
  GET \<^verbatim>\<open>/executions/status/{execution_id}\<close>.
  The call is issued once the client is created.
\<close>

theorem tools_use_catalog_verbs_and_urls:
  assumes "client_enter e = None"
  shows "map (\<lambda>r. (req_verb r, req_url r))
       (drop (length (sent w)) (sent (snd (create_agent e agent_name agent_type message w))))
     = [(POST, ''https://api.bolna.ai/v2/agent'')]
   \<and> map (\<lambda>r. (req_verb r, req_url r)) (drop (length (sent w)) (sent (snd (get_agents e w))))
     = [(GET, ''https://api.bolna.ai/v2/agent/all'')]
   \<and> map (\<lambda>r. (req_verb r, req_url r)) (drop (length (sent w)) (sent (snd (get_agent e agent_id w))))
     = [(GET, ''https://api.bolna.ai/v2/agent/'' @ agent_id)]
   \<and> map (\<lambda>r. (req_verb r, req_url r))
       (drop (length (sent w)) (sent (snd (update_agent e agent_id agent_config w))))
     = [(PUT, ''https://api.bolna.ai/v2/agent/'' @ agent_id)]
   \<and> map (\<lambda>r. (req_verb r, req_url r)) (drop (length (sent w)) (sent (snd (delete_agent e agent_id w))))
     = [(DELETE, ''https://api.bolna.ai/v2/agent/'' @ agent_id)]
   \<and> map (\<lambda>r. (req_verb r, req_url r))
       (drop (length (sent w)) (sent (snd (execute_agent e agent_id execution_data w))))
     = [(POST, ''https://api.bolna.ai/v2/executions/'' @ agent_id)]
   \<and> map (\<lambda>r. (req_verb r, req_url r))
       (drop (length (sent w)) (sent (snd (get_execution_status e execution_id w))))
     = [(GET, ''https://api.bolna.ai/v2/executions/status/'' @ execution_id)]"
  by (simp add: sent_tool [OF assms] client_post_def client_put_def client_delete_def
      client_get_def BOLNA_API_URL_def)

theorem tools_use_catalog_verbs_and_urls_witness:
  "map (\<lambda>r. (req_verb r, req_url r))
       (sent (snd (get_agent (stub_env (Inr (ok_response (JObject [])))) ''abc'' empty_world)))
     = [(GET, ''https://api.bolna.ai/v2/agent/abc'')]
   \<and> map (\<lambda>r. (req_verb r, req_url r))
       (sent (snd (get_execution_status (stub_env (Inr (ok_response (JObject []))))
          ''run-7'' empty_world)))
     = [(GET, ''https://api.bolna.ai/v2/executions/status/run-7'')]"
proof -
  let ?e = "stub_env (Inr (ok_response (JObject [])))"
  have "client_enter ?e = None" by (simp add: stub_env_simps)
  from tools_use_catalog_verbs_and_urls [OF this, of empty_world _ _ _ "''abc''" _ _ "''run-7''"]
  show ?thesis by (simp add: empty_world_def)
qed



end
